theory Spec2Isabelle
  imports Main "HOL-Library.AList"
begin

section \<open>Python values, exceptions and the module namespace\<close>

text \<open>
  The program is \<^verbatim>\<open>src/api/index.py\<close>: a Flask module with two module-level
  dictionaries (\<^verbatim>\<open>uart_configs\<close>, \<^verbatim>\<open>active_connections\<close>), the helper
  functions \<^verbatim>\<open>get_serial_parity\<close> and \<^verbatim>\<open>configure_uart_port\<close>, and the route
  handlers \<^verbatim>\<open>get_ports\<close>, \<^verbatim>\<open>configure_port\<close>, \<^verbatim>\<open>disconnect_port\<close> and
  \<^verbatim>\<open>test_port\<close>.

  Calls of \<^verbatim>\<open>logger\<close> write a log line and touch neither dictionary; they are
  left out.

  Strings are \<open>string\<close>; a character stands for a code point below 256. Values
  that travel through JSON are \<open>json\<close>; JSON numbers with a fraction or an exponent
  are outside the model. A \<open>JObj\<close> holds the items of a parsed dictionary, looked up with
  \<open>map_of\<close>.
\<close>

datatype json =
    JNull
  | JBool bool
  | JInt int
  | JStr string
  | JArr "json list"
  | JObj "(string \<times> json) list"

text \<open>
  The exceptions the code can meet. \<open>SerialException\<close> is pyserial's own class, the
  one the first \<^verbatim>\<open>except\<close> clause of \<^verbatim>\<open>configure_uart_port\<close> names; all of them
  are subclasses of \<^verbatim>\<open>Exception\<close>. Each carries what \<^verbatim>\<open>str(e)\<close> is built from.
\<close>

datatype exn =
    NameError string
  | KeyError string
  | AttributeError string
  | SerialException string
  | OSError string
  | ValueError string

definition quoted :: "string \<Rightarrow> string" where
  "quoted x = CHR 0x27 # x @ [CHR 0x27]"

fun str_exn :: "exn \<Rightarrow> string" where
  "str_exn (NameError n) = ''name '' @ quoted n @ '' is not defined''"
| "str_exn (KeyError k) = quoted k"
| "str_exn (AttributeError m) = m"
| "str_exn (SerialException m) = m"
| "str_exn (OSError m) = m"
| "str_exn (ValueError m) = m"

fun is_serial_exception :: "exn \<Rightarrow> bool" where
  "is_serial_exception (SerialException _) = True"
| "is_serial_exception _ = False"

text \<open>
  The names the module binds at top level, in the order of the source: the four names of
  \<^verbatim>\<open>from flask import Flask, redirect, url_for, render_template\<close> (line 1), \<^verbatim>\<open>CORS\<close>
  (line 2), the modules of lines 3 to 6, and every module-level assignment and
  \<^verbatim>\<open>def\<close>. Python resolves a global name when the expression that mentions it is
  evaluated, and raises \<^verbatim>\<open>NameError\<close> for a name that is neither here nor a builtin.
  The handlers below take the namespace as their first argument.
\<close>

definition module_globals :: "string list" where
  "module_globals =
     [''Flask'', ''redirect'', ''url_for'', ''render_template'', ''CORS'',
      ''serial'', ''json'', ''os'', ''logging'',
      ''app'', ''logger'',
      ''UART_PORTS'', ''VALID_BAUD_RATES'', ''VALID_PARITY'',
      ''uart_configs'', ''active_connections'',
      ''get_serial_parity'', ''configure_uart_port'',
      ''index'', ''catch_all'', ''get_ports'', ''configure_port'',
      ''disconnect_port'', ''test_port'']"

definition lookup_global :: "string list \<Rightarrow> string \<Rightarrow> exn option" where
  "lookup_global ns name = (if name \<in> set ns then None else Some (NameError name))"

section \<open>Constants and state\<close>

definition UART_PORTS :: "string list" where
  "UART_PORTS = [''/dev/ttyAMA0'', ''/dev/ttyAMA1'', ''/dev/ttyAMA2'']"

definition VALID_BAUD_RATES :: "int list" where
  "VALID_BAUD_RATES = [9600, 19200, 38400, 57600, 115200, 230400, 460800, 921600]"

definition VALID_PARITY :: "string list" where
  "VALID_PARITY = [''none'', ''even'', ''odd'']"

datatype status = Disconnected | Connected | Error

fun status_str :: "status \<Rightarrow> string" where
  "status_str Disconnected = ''disconnected''"
| "status_str Connected = ''connected''"
| "status_str Error = ''error''"

record port_config =
  baud_rate :: int
  parity :: string
  status :: status

text \<open>pyserial's parity constants; their values are the strings \<^verbatim>\<open>'N'\<close>, \<^verbatim>\<open>'E'\<close>, \<^verbatim>\<open>'O'\<close>.\<close>

datatype parity_const = PARITY_NONE | PARITY_EVEN | PARITY_ODD

fun parity_const_str :: "parity_const \<Rightarrow> string" where
  "parity_const_str PARITY_NONE = ''N''"
| "parity_const_str PARITY_EVEN = ''E''"
| "parity_const_str PARITY_ODD = ''O''"

text \<open>What the handlers read of a \<^verbatim>\<open>serial.Serial\<close> object.\<close>

record serial_handle =
  ser_port :: string
  ser_baudrate :: int
  ser_parity :: parity_const
  is_open :: bool

text \<open>
  The two module-level dictionaries, as association lists in insertion order.
  \<^verbatim>\<open>d[k] = v\<close> is \<open>AList.update\<close>, \<^verbatim>\<open>del d[k]\<close> is \<open>AList.delete\<close>,
  \<^verbatim>\<open>k in d\<close> is \<open>map_of d k \<noteq> None\<close>.
\<close>

record state =
  uart_configs :: "(string \<times> port_config) list"
  active_connections :: "(string \<times> serial_handle) list"

definition default_config :: port_config where
  "default_config = \<lparr>baud_rate = 9600, parity = ''none'', status = Disconnected\<rparr>"

definition initial_state :: state where
  "initial_state =
     \<lparr>uart_configs =
        [(''/dev/ttyAMA0'', default_config),
         (''/dev/ttyAMA1'', default_config),
         (''/dev/ttyAMA2'', default_config)],
      active_connections = []\<rparr>"

text \<open>
  What the host answers to the three calls that leave the process: whether
  \<^verbatim>\<open>os.path.exists\<close> finds the path, whether the \<^verbatim>\<open>serial.Serial\<close> constructor
  raises for the given port, baud rate and parity, and whether \<^verbatim>\<open>close()\<close> on a
  handle raises. Every operation takes the host's answers at the time of the call.
\<close>

record world =
  path_exists :: "string \<Rightarrow> bool"
  open_error :: "string \<Rightarrow> int \<Rightarrow> parity_const \<Rightarrow> exn option"
  close_error :: "serial_handle \<Rightarrow> exn option"

section \<open>\<^verbatim>\<open>get_serial_parity\<close>\<close>

text \<open>
  \<^verbatim>\<open>str.lower()\<close> on code points below 256: the ASCII capitals and the Latin-1
  capitals (\<open>0xC0\<close> to \<open>0xDE\<close> without the multiplication sign \<open>0xD7\<close>) move up by
  \<open>0x20\<close>, everything else stays.
\<close>

definition lower_char :: "char \<Rightarrow> char" where
  "lower_char c =
     (let n = (of_char c :: nat)
      in if (0x41 \<le> n \<and> n \<le> 0x5A) \<or> (0xC0 \<le> n \<and> n \<le> 0xDE \<and> n \<noteq> 0xD7)
         then char_of (n + 0x20) else c)"

definition lower :: "string \<Rightarrow> string" where
  "lower s = map lower_char s"

definition parity_map :: "(string \<times> parity_const) list" where
  "parity_map = [(''none'', PARITY_NONE), (''even'', PARITY_EVEN), (''odd'', PARITY_ODD)]"

text \<open>\<^verbatim>\<open>d.get(k, default)\<close>\<close>

definition dict_get :: "('k \<times> 'v) list \<Rightarrow> 'k \<Rightarrow> 'v \<Rightarrow> 'v" where
  "dict_get d k dflt = (case map_of d k of None \<Rightarrow> dflt | Some v \<Rightarrow> v)"

definition get_serial_parity :: "string \<Rightarrow> parity_const" where
  "get_serial_parity parity_str = dict_get parity_map (lower parity_str) PARITY_NONE"

section \<open>\<^verbatim>\<open>configure_uart_port\<close>\<close>

text \<open>
  Lines 48 to 50, and again 170 to 172: close the port's handle if there is one and delete
  its entry. When \<^verbatim>\<open>close()\<close> raises, the \<^verbatim>\<open>del\<close> is not reached.
\<close>

definition close_existing :: "world \<Rightarrow> string \<Rightarrow> state \<Rightarrow> exn option \<times> state" where
  "close_existing w port s =
     (case map_of (active_connections s) port of
        None \<Rightarrow> (None, s)
      | Some ser \<Rightarrow>
          (case close_error w ser of
             Some e \<Rightarrow> (Some e, s)
           | None \<Rightarrow>
               (None, s\<lparr>active_connections := AList.delete port (active_connections s)\<rparr>)))"

text \<open>
  \<^verbatim>\<open>uart_configs[port][field] = value\<close>: the subscript \<^verbatim>\<open>uart_configs[port]\<close> raises
  \<^verbatim>\<open>KeyError\<close> for a port without an entry; otherwise the inner dictionary is changed
  in place.
\<close>

definition set_config :: "string \<Rightarrow> (port_config \<Rightarrow> port_config) \<Rightarrow> state \<Rightarrow> exn + state" where
  "set_config port f s =
     (case map_of (uart_configs s) port of
        None \<Rightarrow> Inl (KeyError port)
      | Some c \<Rightarrow> Inr (s\<lparr>uart_configs := AList.update port (f c) (uart_configs s)\<rparr>))"

text \<open>
  The body of the \<^verbatim>\<open>try\<close> (lines 47 to 79). The result is either the exception that
  left the body or the returned pair, together with the state at that moment.
\<close>

definition configure_try ::
  "world \<Rightarrow> string \<Rightarrow> int \<Rightarrow> string \<Rightarrow> state \<Rightarrow> (exn + bool \<times> string) \<times> state" where
  "configure_try w port b par s =
     (case close_existing w port s of
        (Some e, s1) \<Rightarrow> (Inl e, s1)
      | (None, s1) \<Rightarrow>
          if \<not> path_exists w port
          then (Inr (False, ''Port '' @ port @ '' does not exist''), s1)
          else
            (case open_error w port b (get_serial_parity par) of
               Some e \<Rightarrow> (Inl e, s1)
             | None \<Rightarrow>
                 let ser = \<lparr>ser_port = port, ser_baudrate = b,
                            ser_parity = get_serial_parity par, is_open = True\<rparr>;
                     s2 = s1\<lparr>active_connections :=
                               AList.update port ser (active_connections s1)\<rparr>
                 in (case set_config port
                            (\<lambda>c. c\<lparr>baud_rate := b, parity := par, status := Connected\<rparr>) s2 of
                       Inl e \<Rightarrow> (Inl e, s2)
                     | Inr s3 \<Rightarrow>
                         (Inr (True, ''Port '' @ port @ '' configured successfully''), s3))))"

text \<open>
  The two \<^verbatim>\<open>except\<close> clauses (lines 81 to 88): both set the status to
  \<^verbatim>\<open>'error'\<close> and return \<^verbatim>\<open>False\<close> with a message; an exception raised inside a
  clause leaves the function.
\<close>

definition configure_uart_port ::
  "world \<Rightarrow> string \<Rightarrow> int \<Rightarrow> string \<Rightarrow> state \<Rightarrow> (exn + bool \<times> string) \<times> state" where
  "configure_uart_port w port b par s =
     (case configure_try w port b par s of
        (Inl e, s1) \<Rightarrow>
          (case set_config port (\<lambda>c. c\<lparr>status := Error\<rparr>) s1 of
             Inl e' \<Rightarrow> (Inl e', s1)
           | Inr s2 \<Rightarrow>
               (Inr (False,
                     (if is_serial_exception e
                      then ''Failed to configure '' @ port @ '': '' @ str_exn e
                      else ''Unexpected error: '' @ str_exn e)), s2))
      | (Inr r, s1) \<Rightarrow> (Inr r, s1))"

section \<open>The route handlers\<close>

record response =
  status_code :: nat
  body :: json

text \<open>
  A call \<^verbatim>\<open>jsonify(payload)\<close>: the name is looked up before the argument is
  evaluated. With a status code after it (\<^verbatim>\<open>return jsonify(...), 400\<close>) the response
  carries that code, otherwise 200.
\<close>

definition jsonify :: "string list \<Rightarrow> json \<Rightarrow> nat \<Rightarrow> exn + response" where
  "jsonify ns payload code =
     (case lookup_global ns ''jsonify'' of
        Some e \<Rightarrow> Inl e
      | None \<Rightarrow> Inr \<lparr>status_code = code, body = payload\<rparr>)"

definition failure :: "string \<Rightarrow> json" where
  "failure msg = JObj [(''success'', JBool False), (''message'', JStr msg)]"

definition config_json :: "port_config \<Rightarrow> json" where
  "config_json c =
     JObj [(''baud_rate'', JInt (baud_rate c)), (''parity'', JStr (parity c)),
           (''status'', JStr (status_str (status c)))]"

definition ports_json :: "(string \<times> port_config) list \<Rightarrow> json" where
  "ports_json cs = JObj (map (\<lambda>(p, c). (p, config_json c)) cs)"

definition get_ports :: "string list \<Rightarrow> state \<Rightarrow> (exn + response) \<times> state" where
  "get_ports ns s =
     (jsonify ns
        (JObj [(''ports'', ports_json (uart_configs s)),
               (''available_baud_rates'', JArr (map JInt VALID_BAUD_RATES)),
               (''available_parity'', JArr (map JStr VALID_PARITY))])
        200,
      s)"

text \<open>
  \<^verbatim>\<open>configure_port\<close> (lines 124 to 160). Its argument \<open>data\<close> is what
  \<^verbatim>\<open>request.get_json()\<close> returns for the request at hand; the name
  \<^verbatim>\<open>request\<close> is looked up first.
\<close>

fun truthy :: "json \<Rightarrow> bool" where
  "truthy JNull = False"
| "truthy (JBool b) = b"
| "truthy (JInt n) = (n \<noteq> 0)"
| "truthy (JStr x) = (x \<noteq> [])"
| "truthy (JArr xs) = (xs \<noteq> [])"
| "truthy (JObj kvs) = (kvs \<noteq> [])"

fun type_name :: "json \<Rightarrow> string" where
  "type_name JNull = ''NoneType''"
| "type_name (JBool _) = ''bool''"
| "type_name (JInt _) = ''int''"
| "type_name (JStr _) = ''str''"
| "type_name (JArr _) = ''list''"
| "type_name (JObj _) = ''dict''"

text \<open>
  \<^verbatim>\<open>v in xs\<close> for a list of strings and for a list of integers at or above 9600: only
  a string, respectively an integer, can be equal to a member (\<^verbatim>\<open>True == 1\<close> and
  \<^verbatim>\<open>False == 0\<close> are no members). The result is the member found.
\<close>

fun str_member :: "json \<Rightarrow> string list \<Rightarrow> string option" where
  "str_member (JStr x) xs = (if x \<in> set xs then Some x else None)"
| "str_member _ xs = None"

fun int_member :: "json \<Rightarrow> int list \<Rightarrow> int option" where
  "int_member (JInt n) ns = (if n \<in> set ns then Some n else None)"
| "int_member _ ns = None"

definition configure_port_try ::
  "string list \<Rightarrow> world \<Rightarrow> json \<Rightarrow> state \<Rightarrow> (exn + response) \<times> state" where
  "configure_port_try ns w data s =
     (case lookup_global ns ''request'' of
        Some e \<Rightarrow> (Inl e, s)
      | None \<Rightarrow>
          if \<not> truthy data then (jsonify ns (failure ''No data provided'') 400, s)
          else
            (case data of
               JObj kvs \<Rightarrow>
                 let port = dict_get kvs ''port'' JNull;
                     baud = dict_get kvs ''baud_rate'' JNull;
                     par = dict_get kvs ''parity'' JNull
                 in (case str_member port UART_PORTS of
                       None \<Rightarrow> (jsonify ns (failure ''Invalid port specified'') 400, s)
                     | Some p \<Rightarrow>
                    (case int_member baud VALID_BAUD_RATES of
                       None \<Rightarrow> (jsonify ns (failure ''Invalid baud rate'') 400, s)
                     | Some b \<Rightarrow>
                    (case str_member par VALID_PARITY of
                       None \<Rightarrow> (jsonify ns (failure ''Invalid parity setting'') 400, s)
                     | Some q \<Rightarrow>
                    (case configure_uart_port w p b q s of
                       (Inl e, s1) \<Rightarrow> (Inl e, s1)
                     | (Inr (success, message), s1) \<Rightarrow>
                         if success then
                           (case lookup_global ns ''jsonify'' of
                              Some e \<Rightarrow> (Inl e, s1)
                            | None \<Rightarrow>
                                (case map_of (uart_configs s1) p of
                                   None \<Rightarrow> (Inl (KeyError p), s1)
                                 | Some c \<Rightarrow>
                                     (jsonify ns
                                        (JObj [(''success'', JBool True),
                                               (''message'', JStr message),
                                               (''config'', config_json c)])
                                        200, s1)))
                         else (jsonify ns (failure message) 500, s1)))))
             | _ \<Rightarrow>
                 (Inl (AttributeError
                         (quoted (type_name data) @ '' object has no attribute '' @
                          quoted ''get'')), s)))"

definition configure_port ::
  "string list \<Rightarrow> world \<Rightarrow> json \<Rightarrow> state \<Rightarrow> (exn + response) \<times> state" where
  "configure_port ns w data s =
     (case configure_port_try ns w data s of
        (Inl e, s1) \<Rightarrow> (jsonify ns (failure (''Server error: '' @ str_exn e)) 500, s1)
      | (Inr r, s1) \<Rightarrow> (Inr r, s1))"

text \<open>\<^verbatim>\<open>disconnect_port\<close> (lines 163 to 186).\<close>

definition disconnect_port_try ::
  "string list \<Rightarrow> world \<Rightarrow> string \<Rightarrow> state \<Rightarrow> (exn + response) \<times> state" where
  "disconnect_port_try ns w port s =
     (if port \<notin> set UART_PORTS
      then (jsonify ns (failure ''Invalid port specified'') 400, s)
      else
        (case close_existing w port s of
           (Some e, s1) \<Rightarrow> (Inl e, s1)
         | (None, s1) \<Rightarrow>
             (case set_config port (\<lambda>c. c\<lparr>status := Disconnected\<rparr>) s1 of
                Inl e \<Rightarrow> (Inl e, s1)
              | Inr s2 \<Rightarrow>
                  (case lookup_global ns ''jsonify'' of
                     Some e \<Rightarrow> (Inl e, s2)
                   | None \<Rightarrow>
                       (case map_of (uart_configs s2) port of
                          None \<Rightarrow> (Inl (KeyError port), s2)
                        | Some c \<Rightarrow>
                            (jsonify ns
                               (JObj [(''success'', JBool True),
                                      (''message'', JStr (''Port '' @ port @ '' disconnected'')),
                                      (''config'', config_json c)])
                               200, s2))))))"

definition disconnect_port ::
  "string list \<Rightarrow> world \<Rightarrow> string \<Rightarrow> state \<Rightarrow> (exn + response) \<times> state" where
  "disconnect_port ns w port s =
     (case disconnect_port_try ns w port s of
        (Inl e, s1) \<Rightarrow>
          (jsonify ns (failure (''Error disconnecting port: '' @ str_exn e)) 500, s1)
      | (Inr r, s1) \<Rightarrow> (Inr r, s1))"

text \<open>\<^verbatim>\<open>test_port\<close> (lines 189 to 216). It assigns to neither dictionary.\<close>

definition test_port_try :: "string list \<Rightarrow> string \<Rightarrow> state \<Rightarrow> exn + response" where
  "test_port_try ns port s =
     (if port \<notin> set UART_PORTS then jsonify ns (failure ''Invalid port specified'') 400
      else
        (case map_of (active_connections s) port of
           None \<Rightarrow> jsonify ns (failure ''Port not connected'') 400
         | Some ser \<Rightarrow>
             if is_open ser then
               jsonify ns
                 (JObj [(''success'', JBool True),
                        (''message'', JStr (''Port '' @ port @ '' is active and ready'')),
                        (''details'',
                         JObj [(''baudrate'', JInt (ser_baudrate ser)),
                               (''parity'', JStr (parity_const_str (ser_parity ser))),
                               (''is_open'', JBool (is_open ser))])])
                 200
             else jsonify ns (failure ''Port is not open'') 500))"

definition test_port :: "string list \<Rightarrow> string \<Rightarrow> state \<Rightarrow> (exn + response) \<times> state" where
  "test_port ns port s =
     (case test_port_try ns port s of
        Inl e \<Rightarrow> (jsonify ns (failure (''Error testing port: '' @ str_exn e)) 500, s)
      | Inr r \<Rightarrow> (Inr r, s))"

section \<open>Notions the properties are stated with\<close>

text \<open>
  A word written in any letter case: \<open>spelled s t\<close> holds when \<open>s\<close> has the
  length of the lowercase word \<open>t\<close> and each of its characters is the character of
  \<open>t\<close> at that place or its capital (32 code points below).
\<close>

definition same_letter :: "char \<Rightarrow> char \<Rightarrow> bool" where
  "same_letter c d \<longleftrightarrow> c = d \<or> (of_char c :: nat) + 0x20 = of_char d"

fun spelled :: "string \<Rightarrow> string \<Rightarrow> bool" where
  "spelled [] [] = True"
| "spelled (c # cs) (d # ds) = (same_letter c d \<and> spelled cs ds)"
| "spelled _ _ = False"

definition lower_letter :: "char \<Rightarrow> bool" where
  "lower_letter d \<longleftrightarrow> 0x61 \<le> (of_char d :: nat) \<and> (of_char d :: nat) \<le> 0x7A"

text \<open>Reading the two dictionaries.\<close>

definition has_connection :: "state \<Rightarrow> string \<Rightarrow> bool" where
  "has_connection s port \<longleftrightarrow> map_of (active_connections s) port \<noteq> None"

definition status_of :: "state \<Rightarrow> string \<Rightarrow> status option" where
  "status_of s port = map_option status (map_of (uart_configs s) port)"

text \<open>
  The keys of \<^verbatim>\<open>uart_configs\<close> are those of the module's start: no statement of the
  source adds or deletes a key.
\<close>

definition well_formed :: "state \<Rightarrow> bool" where
  "well_formed s \<longleftrightarrow> map fst (uart_configs s) = UART_PORTS"

text \<open>
  \<open>close_ok w s port\<close>: closing the port's handle, if it has one, does not raise on
  the host \<open>w\<close>.
\<close>

definition close_ok :: "world \<Rightarrow> state \<Rightarrow> string \<Rightarrow> bool" where
  "close_ok w s port =
     (case map_of (active_connections s) port of
        None \<Rightarrow> True
      | Some ser \<Rightarrow> close_error w ser = None)"

text \<open>
  Sequences of operations on the state. A Configure step is a call of
  \<^verbatim>\<open>configure_uart_port\<close> with any arguments, a Disconnect step a call of
  \<^verbatim>\<open>disconnect_port\<close>; each step has its own host answers.
\<close>

datatype op = Configure string int string | Disconnect string

fun step :: "world \<times> op \<Rightarrow> state \<Rightarrow> state" where
  "step (w, Configure port b par) s = snd (configure_uart_port w port b par s)"
| "step (w, Disconnect port) s = snd (disconnect_port module_globals w port s)"

fun run :: "(world \<times> op) list \<Rightarrow> state \<Rightarrow> state" where
  "run [] s = s"
| "run (x # xs) s = run xs (step x s)"




text \<open>Hosts and states for the concrete runs below.\<close>

definition host_ok :: world where
  "host_ok = \<lparr>path_exists = (\<lambda>_. True), open_error = (\<lambda>_ _ _. None),
              close_error = (\<lambda>_. None)\<rparr>"

definition host_absent :: world where
  "host_absent = \<lparr>path_exists = (\<lambda>_. False), open_error = (\<lambda>_ _ _. None),
                  close_error = (\<lambda>_. None)\<rparr>"

definition host_close_fails :: world where
  "host_close_fails =
     \<lparr>path_exists = (\<lambda>_. True), open_error = (\<lambda>_ _ _. None),
      close_error = (\<lambda>_. Some (OSError ''[Errno 5] Input/output error''))\<rparr>"

text \<open>
  The state after \<^verbatim>\<open>configure_uart_port('/dev/ttyAMA0', 115200, 'even')\<close> on a fresh
  process whose device is present and opens (lemma \<open>example_connected_reached\<close>).
\<close>

definition example_connected :: state where
  "example_connected =
     \<lparr>uart_configs =
        [(''/dev/ttyAMA0'', \<lparr>baud_rate = 115200, parity = ''even'', status = Connected\<rparr>),
         (''/dev/ttyAMA1'', default_config),
         (''/dev/ttyAMA2'', default_config)],
      active_connections =
        [(''/dev/ttyAMA0'',
          \<lparr>ser_port = ''/dev/ttyAMA0'', ser_baudrate = 115200, ser_parity = PARITY_EVEN,
           is_open = True\<rparr>)]\<rparr>"


section \<open>Facts about the building blocks\<close>

lemma of_char_lower_char:
  "(of_char (lower_char c) :: nat) =
     (let n = (of_char c :: nat)
      in if (0x41 \<le> n \<and> n \<le> 0x5A) \<or> (0xC0 \<le> n \<and> n \<le> 0xDE \<and> n \<noteq> 0xD7)
         then n + 0x20 else n)"
proof -
  have "(of_char c :: nat) < 256" by simp
  then show ?thesis
    unfolding lower_char_def Let_def by (auto simp: of_char_of)
qed

lemma lower_char_eq_iff:
  assumes "lower_letter d"
  shows "lower_char c = d \<longleftrightarrow> same_letter c d"
proof -
  define n :: nat where "n = of_char c"
  define m :: nat where "m = of_char d"
  have m: "97 \<le> m" "m \<le> 122"
    using assms by (simp_all add: lower_letter_def m_def)
  have "lower_char c = d \<longleftrightarrow> (of_char (lower_char c) :: nat) = of_char d"
    by (simp only: of_char_eq_iff)
  also have "\<dots> \<longleftrightarrow>
      (if (65 \<le> n \<and> n \<le> 90) \<or> (192 \<le> n \<and> n \<le> 222 \<and> n \<noteq> 215) then n + 32 else n) = m"
    by (simp add: of_char_lower_char Let_def n_def m_def)
  also have "\<dots> \<longleftrightarrow> n = m \<or> n + 32 = m"
    using m by auto
  also have "\<dots> \<longleftrightarrow> same_letter c d"
    by (simp add: same_letter_def n_def m_def)
  finally show ?thesis .
qed

lemma lower_eq_iff_spelled:
  "list_all lower_letter t \<Longrightarrow> lower s = t \<longleftrightarrow> spelled s t"
proof (induction s arbitrary: t)
  case Nil
  then show ?case by (cases t) (simp_all add: lower_def)
next
  case (Cons c cs)
  then show ?case by (cases t) (auto simp: lower_def lower_char_eq_iff)
qed

lemma parity_words_lower:
  "list_all lower_letter ''none''" "list_all lower_letter ''even''"
  "list_all lower_letter ''odd''"
  by (simp_all add: lower_letter_def)

lemma get_serial_parity_cases:
  "get_serial_parity s =
     (if spelled s ''even'' then PARITY_EVEN
      else if spelled s ''odd'' then PARITY_ODD
      else PARITY_NONE)"
  by (simp add: get_serial_parity_def dict_get_def parity_map_def
      lower_eq_iff_spelled [OF parity_words_lower(1), symmetric]
      lower_eq_iff_spelled [OF parity_words_lower(2), symmetric]
      lower_eq_iff_spelled [OF parity_words_lower(3), symmetric])

lemma spelled_none_not_even_odd:
  "spelled s ''none'' \<Longrightarrow> \<not> spelled s ''even'' \<and> \<not> spelled s ''odd''"
  by (simp add: lower_eq_iff_spelled [OF parity_words_lower(1), symmetric]
      lower_eq_iff_spelled [OF parity_words_lower(2), symmetric]
      lower_eq_iff_spelled [OF parity_words_lower(3), symmetric])

lemma spelled_even_not_odd: "spelled s ''even'' \<Longrightarrow> \<not> spelled s ''odd''"
  by (simp add: lower_eq_iff_spelled [OF parity_words_lower(2), symmetric]
      lower_eq_iff_spelled [OF parity_words_lower(3), symmetric])

text \<open>The names \<^verbatim>\<open>jsonify\<close> and \<^verbatim>\<open>request\<close> are not bound by the module.\<close>

lemma lookup_jsonify: "lookup_global module_globals ''jsonify'' = Some (NameError ''jsonify'')"
  by (simp add: lookup_global_def module_globals_def)

lemma lookup_request: "lookup_global module_globals ''request'' = Some (NameError ''request'')"
  by (simp add: lookup_global_def module_globals_def)

lemma jsonify_unbound: "jsonify module_globals payload code = Inl (NameError ''jsonify'')"
  by (simp add: jsonify_def lookup_jsonify)

lemma jsonify_bound:
  "''jsonify'' \<in> set ns \<Longrightarrow> jsonify ns payload code = Inr \<lparr>status_code = code, body = payload\<rparr>"
  by (simp add: jsonify_def lookup_global_def)

text \<open>Closing the handle of a port.\<close>

lemma close_existing_ok:
  assumes "close_ok w s p"
  shows "close_existing w p s =
         (None, s\<lparr>active_connections := AList.delete p (active_connections s)\<rparr>)"
proof (cases "map_of (active_connections s) p")
  case None
  then have "p \<notin> fst ` set (active_connections s)"
    by (simp add: map_of_eq_None_iff)
  with None show ?thesis
    by (simp add: close_existing_def)
next
  case (Some ser)
  with assms show ?thesis
    by (simp add: close_ok_def close_existing_def)
qed

lemma close_existing_raises:
  "map_of (active_connections s) p = Some ser \<Longrightarrow> close_error w ser = Some e \<Longrightarrow>
   close_existing w p s = (Some e, s)"
  by (simp add: close_existing_def)

lemma not_close_ok_iff:
  "\<not> close_ok w s p \<longleftrightarrow>
   (\<exists>ser e. map_of (active_connections s) p = Some ser \<and> close_error w ser = Some e)"
  by (auto simp: close_ok_def split: option.splits)

lemma well_formed_lookup:
  "well_formed s \<Longrightarrow> p \<in> set UART_PORTS \<Longrightarrow> \<exists>c. map_of (uart_configs s) p = Some c"
  unfolding well_formed_def
  by (metis list.set_map map_of_eq_None_iff not_Some_eq)

lemma well_formed_update:
  "well_formed s \<Longrightarrow> p \<in> set UART_PORTS \<Longrightarrow>
   well_formed (s\<lparr>uart_configs := AList.update p c (uart_configs s)\<rparr>)"
  unfolding well_formed_def by (simp add: update_keys)

lemma well_formed_conns [simp]:
  "well_formed (s\<lparr>active_connections := cs\<rparr>) = well_formed s"
  by (simp add: well_formed_def)

text \<open>What \<^verbatim>\<open>configure_uart_port\<close> does on each of its paths.\<close>

lemma configure_uart_port_success:
  assumes "map_of (uart_configs s) p = Some c" "close_ok w s p" "path_exists w p"
    "open_error w p b (get_serial_parity q) = None"
  shows "configure_uart_port w p b q s =
     (Inr (True, ''Port '' @ p @ '' configured successfully''),
      s\<lparr>uart_configs :=
           AList.update p (c\<lparr>baud_rate := b, parity := q, status := Connected\<rparr>)
             (uart_configs s),
        active_connections :=
           AList.update p
             \<lparr>ser_port = p, ser_baudrate = b, ser_parity = get_serial_parity q,
              is_open = True\<rparr>
             (AList.delete p (active_connections s))\<rparr>)"
  using assms
  by (simp add: configure_uart_port_def configure_try_def close_existing_ok set_config_def
      Let_def)

lemma configure_uart_port_absent:
  assumes "close_ok w s p" "\<not> path_exists w p"
  shows "configure_uart_port w p b q s =
     (Inr (False, ''Port '' @ p @ '' does not exist''),
      s\<lparr>active_connections := AList.delete p (active_connections s)\<rparr>)"
  using assms
  by (simp add: configure_uart_port_def configure_try_def close_existing_ok)



lemma example_connected_reached:
  "configure_uart_port host_ok ''/dev/ttyAMA0'' 115200 ''even'' initial_state =
     (Inr (True, ''Port /dev/ttyAMA0 configured successfully''), example_connected)"
proof -
  have c: "map_of (uart_configs initial_state) ''/dev/ttyAMA0'' = Some default_config"
    by (simp add: initial_state_def)
  have ok: "close_ok host_ok initial_state ''/dev/ttyAMA0''"
    by (simp add: close_ok_def initial_state_def)
  have ex: "path_exists host_ok ''/dev/ttyAMA0''"
    by (simp add: host_ok_def)
  have op: "open_error host_ok ''/dev/ttyAMA0'' 115200 (get_serial_parity ''even'') = None"
    by (simp add: host_ok_def)
  have par: "get_serial_parity ''even'' = PARITY_EVEN"
    by (simp add: get_serial_parity_cases same_letter_def)
  show ?thesis
    unfolding configure_uart_port_success [OF c ok ex op] par
    by (simp add: initial_state_def example_connected_def default_config_def)
qed

text \<open>What the handlers do to the state, whatever the namespace binds.\<close>

lemma disconnect_port_state:
  assumes "p \<in> set UART_PORTS" "map_of (uart_configs s) p = Some c" "close_ok w s p"
  shows "snd (disconnect_port ns w p s) =
         s\<lparr>uart_configs := AList.update p (c\<lparr>status := Disconnected\<rparr>) (uart_configs s),
           active_connections := AList.delete p (active_connections s)\<rparr>"
  using assms
  by (simp add: disconnect_port_def disconnect_port_try_def close_existing_ok set_config_def
      jsonify_def update_conv' split: option.splits sum.splits prod.splits)

lemma disconnect_port_close_raises:
  assumes "p \<in> set UART_PORTS" "map_of (active_connections s) p = Some ser"
    "close_error w ser = Some e"
  shows "snd (disconnect_port ns w p s) = s"
  using assms
  by (simp add: disconnect_port_def disconnect_port_try_def close_existing_raises
      jsonify_def split: option.splits sum.splits prod.splits)

lemma disconnect_port_invalid:
  "p \<notin> set UART_PORTS \<Longrightarrow> snd (disconnect_port ns w p s) = s"
  by (simp add: disconnect_port_def disconnect_port_try_def jsonify_def
      split: option.splits sum.splits prod.splits)

lemma test_port_state: "snd (test_port ns p s) = s"
  by (simp add: test_port_def split: sum.splits)

text \<open>With the module's namespace every handler ends in \<^verbatim>\<open>NameError\<close>.\<close>

lemma configure_port_raises:
  "configure_port module_globals w d s = (Inl (NameError ''jsonify''), s)"
  by (simp add: configure_port_def configure_port_try_def jsonify_unbound lookup_request)

lemma disconnect_port_raises:
  "fst (disconnect_port module_globals w p s) = Inl (NameError ''jsonify'')"
  by (simp add: disconnect_port_def disconnect_port_try_def jsonify_unbound lookup_jsonify
      split: option.splits sum.splits prod.splits)

lemma test_port_raises: "test_port module_globals p s = (Inl (NameError ''jsonify''), s)"
  by (simp add: test_port_def test_port_try_def jsonify_unbound
      split: option.splits sum.splits prod.splits)

text \<open>
  With \<^verbatim>\<open>jsonify\<close> and \<^verbatim>\<open>request\<close> bound, the handlers answer as their
  \<^verbatim>\<open>return\<close> statements say.
\<close>

lemma get_ports_bound:
  "''jsonify'' \<in> set ns \<Longrightarrow>
   get_ports ns s =
     (Inr \<lparr>status_code = 200,
            body = JObj [(''ports'', ports_json (uart_configs s)),
                         (''available_baud_rates'', JArr (map JInt VALID_BAUD_RATES)),
                         (''available_parity'', JArr (map JStr VALID_PARITY))]\<rparr>, s)"
  by (simp add: get_ports_def jsonify_bound)

lemma configure_port_bound_invalid_port:
  assumes "''jsonify'' \<in> set ns" "''request'' \<in> set ns" "kvs \<noteq> []"
    "str_member (dict_get kvs ''port'' JNull) UART_PORTS = None"
  shows "configure_port ns w (JObj kvs) s =
         (Inr \<lparr>status_code = 400, body = failure ''Invalid port specified''\<rparr>, s)"
  using assms
  by (simp add: configure_port_def configure_port_try_def jsonify_bound lookup_global_def)

lemma configure_port_bound_invalid_baud:
  assumes "''jsonify'' \<in> set ns" "''request'' \<in> set ns" "kvs \<noteq> []"
    "str_member (dict_get kvs ''port'' JNull) UART_PORTS = Some p"
    "int_member (dict_get kvs ''baud_rate'' JNull) VALID_BAUD_RATES = None"
  shows "configure_port ns w (JObj kvs) s =
         (Inr \<lparr>status_code = 400, body = failure ''Invalid baud rate''\<rparr>, s)"
  using assms
  by (simp add: configure_port_def configure_port_try_def jsonify_bound lookup_global_def)

lemma configure_port_bound_invalid_parity:
  assumes "''jsonify'' \<in> set ns" "''request'' \<in> set ns" "kvs \<noteq> []"
    "str_member (dict_get kvs ''port'' JNull) UART_PORTS = Some p"
    "int_member (dict_get kvs ''baud_rate'' JNull) VALID_BAUD_RATES = Some b"
    "str_member (dict_get kvs ''parity'' JNull) VALID_PARITY = None"
  shows "configure_port ns w (JObj kvs) s =
         (Inr \<lparr>status_code = 400, body = failure ''Invalid parity setting''\<rparr>, s)"
  using assms
  by (simp add: configure_port_def configure_port_try_def jsonify_bound lookup_global_def)

lemma disconnect_port_bound_invalid:
  "''jsonify'' \<in> set ns \<Longrightarrow> p \<notin> set UART_PORTS \<Longrightarrow>
   disconnect_port ns w p s =
     (Inr \<lparr>status_code = 400, body = failure ''Invalid port specified''\<rparr>, s)"
  by (simp add: disconnect_port_def disconnect_port_try_def jsonify_bound)

lemma test_port_bound:
  assumes "''jsonify'' \<in> set ns"
  shows "test_port ns p s =
     (if p \<notin> set UART_PORTS
      then (Inr \<lparr>status_code = 400, body = failure ''Invalid port specified''\<rparr>, s)
      else
        (case map_of (active_connections s) p of
           None \<Rightarrow> (Inr \<lparr>status_code = 400, body = failure ''Port not connected''\<rparr>, s)
         | Some ser \<Rightarrow>
             if is_open ser
             then (Inr \<lparr>status_code = 200,
                         body = JObj [(''success'', JBool True),
                                      (''message'', JStr (''Port '' @ p @ '' is active and ready'')),
                                      (''details'',
                                       JObj [(''baudrate'', JInt (ser_baudrate ser)),
                                             (''parity'', JStr (parity_const_str (ser_parity ser))),
                                             (''is_open'', JBool True)])]\<rparr>, s)
             else (Inr \<lparr>status_code = 500, body = failure ''Port is not open''\<rparr>, s)))"
  using assms
  by (simp add: test_port_def test_port_try_def jsonify_bound split: option.splits)


lemma example_connected_well_formed: "well_formed example_connected"
  by (simp add: well_formed_def example_connected_def UART_PORTS_def)

text \<open>
  No call adds or deletes a key of \<^verbatim>\<open>uart_configs\<close>, so every state a run reaches
  from the initial state has the keys of the module's start.
\<close>

lemma update_existing_keys:
  assumes "map_of al p = Some c"
  shows "map fst (AList.update p v al) = map fst al"
proof -
  from assms have "p \<in> fst ` set al"
    by (metis map_of_eq_None_iff option.distinct(1))
  then show ?thesis
    by (simp add: update_keys)
qed

lemma close_existing_keys:
  "uart_configs (snd (close_existing w p s)) = uart_configs s"
  by (simp add: close_existing_def split: option.splits)

lemma set_config_keys:
  "map fst (uart_configs (case set_config p f s of Inl e \<Rightarrow> s | Inr s' \<Rightarrow> s')) =
   map fst (uart_configs s)"
  by (simp add: set_config_def update_existing_keys split: option.splits)

lemma configure_try_keys:
  "map fst (uart_configs (snd (configure_try w p b q s))) = map fst (uart_configs s)"
proof (cases "close_existing w p s")
  case (Pair r s1)
  then have k: "uart_configs s1 = uart_configs s"
    using close_existing_keys [of w p s] by simp
  show ?thesis
    unfolding configure_try_def Pair
    by (simp add: k set_config_def update_existing_keys Let_def split: option.splits)
qed

lemma configure_uart_port_keys:
  "map fst (uart_configs (snd (configure_uart_port w p b q s))) = map fst (uart_configs s)"
proof (cases "configure_try w p b q s")
  case (Pair r s1)
  then have k: "map fst (uart_configs s1) = map fst (uart_configs s)"
    using configure_try_keys [of w p b q s] by simp
  show ?thesis
    unfolding configure_uart_port_def Pair
    by (cases r) (simp_all add: k set_config_def update_existing_keys split: option.splits)
qed

lemma disconnect_port_try_keys:
  "map fst (uart_configs (snd (disconnect_port_try ns w p s))) = map fst (uart_configs s)"
proof (cases "close_existing w p s")
  case (Pair r s1)
  then have k: "uart_configs s1 = uart_configs s"
    using close_existing_keys [of w p s] by simp
  show ?thesis
    unfolding disconnect_port_try_def Pair
    by (simp add: k set_config_def update_existing_keys update_conv' split: option.splits)
qed

lemma disconnect_port_keys:
  "map fst (uart_configs (snd (disconnect_port ns w p s))) = map fst (uart_configs s)"
proof (cases "disconnect_port_try ns w p s")
  case (Pair r s1)
  then have k: "map fst (uart_configs s1) = map fst (uart_configs s)"
    using disconnect_port_try_keys [of ns w p s] by simp
  show ?thesis
    unfolding disconnect_port_def Pair
    by (cases r) (simp_all add: k)
qed

lemma well_formed_step: "well_formed s \<Longrightarrow> well_formed (step x s)"
proof (cases x)
  case (Pair w o')
  assume "well_formed s"
  with Pair show ?thesis
    by (cases o') (simp_all add: well_formed_def configure_uart_port_keys disconnect_port_keys)
qed

lemma well_formed_run: "well_formed s \<Longrightarrow> well_formed (run ops s)"
  by (induction ops arbitrary: s) (simp_all add: well_formed_step)



















section \<open>The claims\<close>




text \<open>
  C2. The claim: a Configure with valid arguments whose device path does not exist
  returns failure, sets the port's status to \<^verbatim>\<open>'error'\<close> and leaves no entry in
  \<^verbatim>\<open>active_connections\<close>. The code at such inputs: on a fresh process
  \<^verbatim>\<open>configure_uart_port('/dev/ttyAMA1', 9600, 'none')\<close> returns \<^verbatim>\<open>False\<close> with the
  message and leaves the state as it was, status \<^verbatim>\<open>'disconnected'\<close>; on a connected
  port the handle is closed and deleted and the status stays \<^verbatim>\<open>'connected'\<close>. The
  \<^verbatim>\<open>return\<close> of line 55 has no assignment to the status before it, unlike the two
  \<^verbatim>\<open>except\<close> clauses.
\<close>

theorem configure_absent_device_keeps_status:
  "configure_uart_port host_absent ''/dev/ttyAMA1'' 9600 ''none'' initial_state =
     (Inr (False, ''Port /dev/ttyAMA1 does not exist''), initial_state) \<and>
   status_of initial_state ''/dev/ttyAMA1'' = Some Disconnected \<and>
   fst (configure_uart_port host_absent ''/dev/ttyAMA0'' 9600 ''none'' example_connected) =
     Inr (False, ''Port /dev/ttyAMA0 does not exist'') \<and>
   status_of (snd (configure_uart_port host_absent ''/dev/ttyAMA0'' 9600 ''none''
                     example_connected)) ''/dev/ttyAMA0'' = Some Connected \<and>
   \<not> has_connection (snd (configure_uart_port host_absent ''/dev/ttyAMA0'' 9600 ''none''
                             example_connected)) ''/dev/ttyAMA0''"
proof -
  have a: "\<not> path_exists host_absent p" for p
    by (simp add: host_absent_def)
  have k1: "close_ok host_absent initial_state ''/dev/ttyAMA1''"
    by (simp add: close_ok_def initial_state_def)
  have k0: "close_ok host_absent example_connected ''/dev/ttyAMA0''"
    by (simp add: close_ok_def example_connected_def host_absent_def)
  show ?thesis
    unfolding configure_uart_port_absent [OF k1 a] configure_uart_port_absent [OF k0 a]
    by (simp add: initial_state_def example_connected_def status_of_def has_connection_def
        default_config_def)
qed

text \<open>
  C3. The claim: \<^verbatim>\<open>get_ports\<close> always succeeds and returns the mapping of every port
  to its configuration with the two lists of supported values, changing no state. The
  code: the module does not bind \<^verbatim>\<open>jsonify\<close>, so in every state the call raises
  \<^verbatim>\<open>NameError\<close>; the state is unchanged.
\<close>

theorem get_ports_raises_NameError:
  "get_ports module_globals s = (Inl (NameError ''jsonify''), s)"
  by (simp add: get_ports_def jsonify_unbound)

text \<open>
  C4, as amended. For a port of \<^verbatim>\<open>UART_PORTS\<close> and a state with the keys of the
  module's start: when the port has no handle or closing its handle does not raise,
  \<^verbatim>\<open>disconnect_port\<close> leaves the port with status \<^verbatim>\<open>'disconnected'\<close> and without
  an entry in \<^verbatim>\<open>active_connections\<close>; when closing raises, it leaves the state as it
  was. This holds whatever names the module binds.
\<close>

theorem disconnect_port_effect:
  assumes "port \<in> set UART_PORTS" and "well_formed s"
  shows "(close_ok w s port \<longrightarrow>
            status_of (snd (disconnect_port ns w port s)) port = Some Disconnected \<and>
            \<not> has_connection (snd (disconnect_port ns w port s)) port) \<and>
         (\<not> close_ok w s port \<longrightarrow> snd (disconnect_port ns w port s) = s)"
proof -
  obtain c where c: "map_of (uart_configs s) port = Some c"
    using well_formed_lookup assms by blast
  have "status_of (snd (disconnect_port ns w port s)) port = Some Disconnected \<and>
        \<not> has_connection (snd (disconnect_port ns w port s)) port"
    if "close_ok w s port"
    unfolding disconnect_port_state [OF assms(1) c that]
    by (simp add: status_of_def has_connection_def update_conv' delete_conv')
  moreover have "snd (disconnect_port ns w port s) = s" if "\<not> close_ok w s port"
    using that disconnect_port_close_raises [OF assms(1)] not_close_ok_iff by blast
  ultimately show ?thesis by blast
qed

theorem disconnect_port_effect_witness:
  "''/dev/ttyAMA0'' \<in> set UART_PORTS \<and> well_formed example_connected \<and>
   close_ok host_ok example_connected ''/dev/ttyAMA0'' \<and>
   status_of (snd (disconnect_port module_globals host_ok ''/dev/ttyAMA0'' example_connected))
     ''/dev/ttyAMA0'' = Some Disconnected \<and>
   \<not> has_connection
       (snd (disconnect_port module_globals host_ok ''/dev/ttyAMA0'' example_connected))
       ''/dev/ttyAMA0'' \<and>
   \<not> close_ok host_close_fails example_connected ''/dev/ttyAMA0'' \<and>
   snd (disconnect_port module_globals host_close_fails ''/dev/ttyAMA0'' example_connected) =
     example_connected"
proof -
  have p: "''/dev/ttyAMA0'' \<in> set UART_PORTS"
    by (simp add: UART_PORTS_def)
  have ok: "close_ok host_ok example_connected ''/dev/ttyAMA0''"
    by (simp add: close_ok_def example_connected_def host_ok_def)
  have bad: "\<not> close_ok host_close_fails example_connected ''/dev/ttyAMA0''"
    by (simp add: close_ok_def example_connected_def host_close_fails_def)
  show ?thesis
    using p example_connected_well_formed ok bad
      disconnect_port_effect [OF p example_connected_well_formed,
        of host_ok module_globals]
      disconnect_port_effect [OF p example_connected_well_formed,
        of host_close_fails module_globals]
    by simp
qed

text \<open>
  C4 as stated fails: with a handle whose \<^verbatim>\<open>close()\<close> raises, \<^verbatim>\<open>disconnect_port\<close>
  leaves the status \<^verbatim>\<open>'connected'\<close> and the handle in place, and it does not return a
  success.
\<close>

theorem disconnect_close_error_keeps_connected:
  "status_of
     (snd (disconnect_port module_globals host_close_fails ''/dev/ttyAMA0'' example_connected))
     ''/dev/ttyAMA0'' = Some Connected \<and>
   has_connection
     (snd (disconnect_port module_globals host_close_fails ''/dev/ttyAMA0'' example_connected))
     ''/dev/ttyAMA0'' \<and>
   fst (disconnect_port module_globals host_close_fails ''/dev/ttyAMA0'' example_connected) =
     Inl (NameError ''jsonify'')"
proof -
  have p: "''/dev/ttyAMA0'' \<in> set UART_PORTS"
    by (simp add: UART_PORTS_def)
  have h: "map_of (active_connections example_connected) ''/dev/ttyAMA0'' =
           Some \<lparr>ser_port = ''/dev/ttyAMA0'', ser_baudrate = 115200, ser_parity = PARITY_EVEN,
                 is_open = True\<rparr>"
    by (simp add: example_connected_def)
  have e: "close_error host_close_fails
             \<lparr>ser_port = ''/dev/ttyAMA0'', ser_baudrate = 115200, ser_parity = PARITY_EVEN,
              is_open = True\<rparr> = Some (OSError ''[Errno 5] Input/output error'')"
    by (simp add: host_close_fails_def)
  show ?thesis
    unfolding disconnect_port_close_raises [OF p h e] disconnect_port_raises
    by (simp add: status_of_def has_connection_def example_connected_def)
qed

text \<open>
  C5. The claim: for an identifier outside \<^verbatim>\<open>UART_PORTS\<close>, Configure, Disconnect and
  Test each return a validation failure and change neither dictionary. The code at the
  port \<^verbatim>\<open>'/dev/ttyUSB0'\<close>: \<^verbatim>\<open>configure_port\<close> raises \<^verbatim>\<open>NameError\<close> at
  \<^verbatim>\<open>request\<close> (line 127), \<^verbatim>\<open>disconnect_port\<close> and \<^verbatim>\<open>test_port\<close> at
  \<^verbatim>\<open>jsonify\<close> (lines 167, 193); each \<^verbatim>\<open>except\<close> clause calls \<^verbatim>\<open>jsonify\<close>
  again, so \<^verbatim>\<open>NameError\<close> leaves the handler and no validation failure is returned.
  The state is unchanged.
\<close>

theorem unknown_port_raises_NameError:
  "configure_port module_globals host_ok
     (JObj [(''port'', JStr ''/dev/ttyUSB0''), (''baud_rate'', JInt 9600),
            (''parity'', JStr ''none'')]) initial_state =
     (Inl (NameError ''jsonify''), initial_state) \<and>
   disconnect_port module_globals host_ok ''/dev/ttyUSB0'' initial_state =
     (Inl (NameError ''jsonify''), initial_state) \<and>
   test_port module_globals ''/dev/ttyUSB0'' initial_state =
     (Inl (NameError ''jsonify''), initial_state)"
proof -
  have "''/dev/ttyUSB0'' \<notin> set UART_PORTS"
    by (simp add: UART_PORTS_def)
  then have "disconnect_port module_globals host_ok ''/dev/ttyUSB0'' initial_state =
             (Inl (NameError ''jsonify''), initial_state)"
    using disconnect_port_raises [of host_ok "''/dev/ttyUSB0''" initial_state]
      disconnect_port_invalid [of "''/dev/ttyUSB0''" module_globals host_ok initial_state]
    by (simp add: prod_eq_iff)
  then show ?thesis
    by (simp add: configure_port_raises test_port_raises)
qed

text \<open>
  C6. The claim: a Configure with valid arguments, on a device that exists and opens,
  stores the new handle, sets baud rate, parity and status \<^verbatim>\<open>'connected'\<close>, and
  returns success with the updated configuration. The code at the request
  \<^verbatim>\<open>{port: '/dev/ttyAMA0', baud_rate: 115200, parity: 'even'}\<close> on a fresh process:
  \<^verbatim>\<open>configure_port\<close> raises \<^verbatim>\<open>NameError\<close> at \<^verbatim>\<open>request\<close> before
  \<^verbatim>\<open>configure_uart_port\<close> is called, so nothing is stored and the status stays
  \<^verbatim>\<open>'disconnected'\<close>. Called by itself with the same arguments,
  \<^verbatim>\<open>configure_uart_port\<close> returns \<^verbatim>\<open>True\<close> with its message and leaves the state
  the claim describes (in general: lemma \<open>configure_uart_port_success\<close>).
\<close>

theorem configure_request_raises_NameError:
  "configure_port module_globals host_ok
     (JObj [(''port'', JStr ''/dev/ttyAMA0''), (''baud_rate'', JInt 115200),
            (''parity'', JStr ''even'')]) initial_state =
     (Inl (NameError ''jsonify''), initial_state) \<and>
   status_of initial_state ''/dev/ttyAMA0'' = Some Disconnected \<and>
   \<not> has_connection initial_state ''/dev/ttyAMA0'' \<and>
   configure_uart_port host_ok ''/dev/ttyAMA0'' 115200 ''even'' initial_state =
     (Inr (True, ''Port /dev/ttyAMA0 configured successfully''), example_connected)"
proof -
  have "status_of initial_state ''/dev/ttyAMA0'' = Some Disconnected"
    by (simp add: status_of_def initial_state_def default_config_def)
  moreover have "\<not> has_connection initial_state ''/dev/ttyAMA0''"
    by (simp add: has_connection_def initial_state_def)
  ultimately show ?thesis
    by (simp only: configure_port_raises example_connected_reached simp_thms)
qed

text \<open>
  C7. The claim: for a port of \<^verbatim>\<open>UART_PORTS\<close>, Test fails with the not-connected
  error exactly when the port has no handle, and with a handle that reports closed it
  returns failure and changes nothing. The code: on a fresh process
  \<^verbatim>\<open>test_port('/dev/ttyAMA2')\<close> raises \<^verbatim>\<open>NameError\<close> at \<^verbatim>\<open>jsonify\<close> (line 196,
  then line 216), and it raises the same \<^verbatim>\<open>NameError\<close> for a port with an open
  handle: no result tells the two cases apart. The state is unchanged.
\<close>

theorem test_port_raises_NameError:
  "test_port module_globals ''/dev/ttyAMA2'' initial_state =
     (Inl (NameError ''jsonify''), initial_state) \<and>
   \<not> has_connection initial_state ''/dev/ttyAMA2'' \<and>
   test_port module_globals ''/dev/ttyAMA0'' example_connected =
     (Inl (NameError ''jsonify''), example_connected) \<and>
   has_connection example_connected ''/dev/ttyAMA0''"
  by (simp add: test_port_raises has_connection_def initial_state_def example_connected_def)




text \<open>
  C9. The claim: \<^verbatim>\<open>configure_port\<close> checks port, then baud rate, then parity, and
  for a request with several invalid fields returns the validation failure of the first
  one, changing no state. The code at the request
  \<^verbatim>\<open>{port: '/dev/ttyUSB0', baud_rate: 1234, parity: 'mark'}\<close>: \<^verbatim>\<open>NameError\<close> is
  raised at \<^verbatim>\<open>request\<close> (line 127) before any check, and again at \<^verbatim>\<open>jsonify\<close>
  in the \<^verbatim>\<open>except\<close> clause (line 160); no validation failure is returned. The state
  is unchanged. With both names bound the checks run in the claimed order (lemmas
  \<open>configure_port_bound_invalid_port\<close>, \<open>configure_port_bound_invalid_baud\<close>,
  \<open>configure_port_bound_invalid_parity\<close>).
\<close>

theorem invalid_request_raises_NameError:
  "configure_port module_globals host_ok
     (JObj [(''port'', JStr ''/dev/ttyUSB0''), (''baud_rate'', JInt 1234),
            (''parity'', JStr ''mark'')]) initial_state =
     (Inl (NameError ''jsonify''), initial_state)"
  by (simp add: configure_port_raises)

text \<open>
  C10. \<^verbatim>\<open>get_serial_parity\<close> returns one of the three parity constants for every
  string: \<^verbatim>\<open>PARITY_NONE\<close> for \<^verbatim>\<open>none\<close>, \<^verbatim>\<open>PARITY_EVEN\<close> for \<^verbatim>\<open>even\<close> and
  \<^verbatim>\<open>PARITY_ODD\<close> for \<^verbatim>\<open>odd\<close>, each written in any letter case, and
  \<^verbatim>\<open>PARITY_NONE\<close> for every other string. The function has no raising path:
  \<^verbatim>\<open>str.lower\<close> and \<^verbatim>\<open>dict.get\<close> with a default do not raise.
\<close>

theorem get_serial_parity_any_case:
  "get_serial_parity s \<in> {PARITY_NONE, PARITY_EVEN, PARITY_ODD} \<and>
   (spelled s ''none'' \<longrightarrow> get_serial_parity s = PARITY_NONE) \<and>
   (spelled s ''even'' \<longrightarrow> get_serial_parity s = PARITY_EVEN) \<and>
   (spelled s ''odd'' \<longrightarrow> get_serial_parity s = PARITY_ODD) \<and>
   (\<not> spelled s ''none'' \<and> \<not> spelled s ''even'' \<and> \<not> spelled s ''odd'' \<longrightarrow>
      get_serial_parity s = PARITY_NONE)"
  using spelled_none_not_even_odd [of s] spelled_even_not_odd [of s]
  by (auto simp: get_serial_parity_cases)

theorem get_serial_parity_any_case_witness:
  "spelled ''NoNe'' ''none'' \<and> get_serial_parity ''NoNe'' = PARITY_NONE \<and>
   spelled ''EVEN'' ''even'' \<and> get_serial_parity ''EVEN'' = PARITY_EVEN \<and>
   spelled ''Odd'' ''odd'' \<and> get_serial_parity ''Odd'' = PARITY_ODD \<and>
   \<not> spelled ''mark'' ''none'' \<and> \<not> spelled ''mark'' ''even'' \<and> \<not> spelled ''mark'' ''odd'' \<and>
   get_serial_parity ''mark'' = PARITY_NONE"
proof -
  have a: "spelled ''NoNe'' ''none''" "spelled ''EVEN'' ''even''" "spelled ''Odd'' ''odd''"
    by (simp_all add: same_letter_def)
  have b: "\<not> spelled ''mark'' ''none''" "\<not> spelled ''mark'' ''even''"
    "\<not> spelled ''mark'' ''odd''"
    by (simp_all add: same_letter_def)
  note n = get_serial_parity_any_case [of "''NoNe''", THEN conjunct2, THEN conjunct1,
      THEN mp, OF a(1)]
  note e = get_serial_parity_any_case [of "''EVEN''", THEN conjunct2, THEN conjunct2,
      THEN conjunct1, THEN mp, OF a(2)]
  note o = get_serial_parity_any_case [of "''Odd''", THEN conjunct2, THEN conjunct2,
      THEN conjunct2, THEN conjunct1, THEN mp, OF a(3)]
  note m = get_serial_parity_any_case [of "''mark''", THEN conjunct2, THEN conjunct2,
      THEN conjunct2, THEN conjunct2, THEN mp, OF conjI [OF b(1) conjI [OF b(2) b(3)]]]
  show ?thesis
    by (simp only: a b n e o m simp_thms)
qed

end
